theory Spec2Isabelle
  imports Main
begin

section \<open>Data model\<close>

text \<open>
  The executor of \<^verbatim>\<open>src/SqlParser.cpp\<close> works on types that are declared in headers
  outside the two source files (\<^verbatim>\<open>Record/Record.hpp\<close>, the engine, the generated
  parser). They are modelled here field by field as the source uses them; types whose
  contents the executor never inspects are type parameters:
  \<^item> \<open>'r\<close> is \<^verbatim>\<open>Record\<close> (compared with \<^verbatim>\<open>operator==\<close>, hashed with \<^verbatim>\<open>RecordHash\<close>),
  \<^item> \<open>'d\<close> is the duration stored in a \<^verbatim>\<open>query_time_t\<close>,
  \<^item> \<open>'ty\<close> is the column type enum \<^verbatim>\<open>Type\<close>.
\<close>

text \<open>\<^verbatim>\<open>Comp\<close>: the five enumerators the \<^verbatim>\<open>switch\<close> of \<^verbatim>\<open>select\<close> lists.\<close>

datatype Comp = EQUAL | L | LE | G | GE

text \<open>
  \<^verbatim>\<open>condition_t\<close> with its fields \<^verbatim>\<open>column_name\<close>, \<^verbatim>\<open>c\<close> and \<^verbatim>\<open>value\<close>. The last two
  are spelled \<open>cmp\<close> and \<open>val\<close>: \<open>value\<close> is reserved and a constant \<open>c\<close> would
  capture every variable of that name.
\<close>

record condition_t =
  column_name :: string
  cmp :: Comp
  val :: string

text \<open>\<^verbatim>\<open>Attribute\<close>, the key \<^verbatim>\<open>{name, value}\<close> handed to the engine.\<close>

record Attribute =
  attr_name :: string
  attr_value :: string

text \<open>\<^verbatim>\<open>column_t\<close> with the fields \<^verbatim>\<open>name\<close>, \<^verbatim>\<open>type\<close> and \<^verbatim>\<open>is_pk\<close> read by \<^verbatim>\<open>create_table\<close>.\<close>

record 'ty column_t =
  col_name :: string
  col_type :: 'ty
  is_pk :: bool

text \<open>
  \<^verbatim>\<open>query_time_t\<close> is a map with unique keys from stage names to durations. It is kept as
  the list of its entries; the position of an entry carries no meaning, a lookup is
  \<^const>\<open>map_of\<close>.
\<close>

type_synonym 'd query_time_t = "(string \<times> 'd) list"

text \<open>
  \<^verbatim>\<open>QueryResponse\<close> (engine) and \<^verbatim>\<open>ParserResponse\<close> (part_000, lines 15-29). The second
  repeats the first two fields of the first, so it is declared as its extension and both
  keep the field names of the source.
\<close>

record ('r, 'd) QueryResponse =
  records :: "'r list"
  query_times :: "'d query_time_t"

record ('r, 'd) ParserResponse = "('r, 'd) QueryResponse" +
  column_names :: "string list"
  table_names :: "string list"
  error :: string
  code :: int

text \<open>What the source throws, or runs into.\<close>

datatype exn =
    RuntimeError string   \<comment> \<open>\<^verbatim>\<open>throw std::runtime_error(msg)\<close>\<close>
  | BadAlloc              \<comment> \<open>\<^verbatim>\<open>std::bad_alloc\<close> rethrown by \<^verbatim>\<open>parse_helper\<close>\<close>
  | FrontOfEmpty          \<comment> \<open>\<^verbatim>\<open>front()\<close> of an empty \<^verbatim>\<open>std::list\<close> (undefined behaviour)\<close>

text \<open>
  A predicate argument of an engine call is a \<^verbatim>\<open>std::function\<close>; \<open>None\<close> is the empty
  one that \<^verbatim>\<open>select_between\<close> passes as \<^verbatim>\<open>{}\<close>.
\<close>

type_synonym 'r predicate = "('r \<Rightarrow> bool) option"

text \<open>
  The calls the executor makes on \<^verbatim>\<open>m_engine\<close> that read or change stored data, with their
  arguments in the order of the source. The executor's state keeps them in a log, in the
  order they are issued.
\<close>

datatype ('r, 'ty) engine_call =
    CreateTable string string "'ty list" "string list"
  | Load string "string list"
  | LoadPred string "string list" "'r predicate"
  | Search string Attribute "'r predicate" "string list"
  | RangeSearch string Attribute Attribute "'r predicate" "string list"
  | Add string "string list"
  | Remove string Attribute

text \<open>
  The engine as one callback sees it. The observers (\<^verbatim>\<open>get_table_names\<close>,
  \<^verbatim>\<open>get_table_attributes\<close>, \<^verbatim>\<open>sort_attributes\<close>, \<^verbatim>\<open>get_indexes_names\<close>, \<^verbatim>\<open>get_comparator\<close>)
  and the answers of the three query operations are parameters: the engine is not part of
  the two source files. \<open>load\<close> is the call with two arguments, \<open>load_pred\<close> the one with a
  predicate. \<open>KEY_MIN\<close> and \<open>KEY_MAX\<close> are \<^verbatim>\<open>DB_ENGINE::KEY_LIMITS::MIN\<close> and \<^verbatim>\<open>MAX\<close>.
  \<^verbatim>\<open>sort_attributes\<close> returns its result: \<^verbatim>\<open>select\<close> hands it a \<^verbatim>\<open>const\<close> vector and uses the
  value returned.
\<close>

record ('r, 'd) DBEngine =
  get_table_names :: "string list"
  get_table_attributes :: "string \<Rightarrow> string list"
  sort_attributes :: "string \<Rightarrow> string list \<Rightarrow> string list"
  get_indexes_names :: "string \<Rightarrow> string list"
  get_comparator :: "string \<Rightarrow> Comp \<Rightarrow> string \<Rightarrow> string \<Rightarrow> 'r \<Rightarrow> bool"
  load :: "string \<Rightarrow> string list \<Rightarrow> ('r, 'd) QueryResponse"
  load_pred :: "string \<Rightarrow> string list \<Rightarrow> 'r predicate \<Rightarrow> ('r, 'd) QueryResponse"
  search :: "string \<Rightarrow> Attribute \<Rightarrow> 'r predicate \<Rightarrow> string list \<Rightarrow> ('r, 'd) QueryResponse"
  range_search ::
    "string \<Rightarrow> Attribute \<Rightarrow> Attribute \<Rightarrow> 'r predicate \<Rightarrow> string list \<Rightarrow> ('r, 'd) QueryResponse"
  KEY_MIN :: Attribute
  KEY_MAX :: Attribute

text \<open>
  A \<^verbatim>\<open>std::istream\<close> as far as \<^verbatim>\<open>parse\<close> looks at it: the three state bits, and the text
  left to read for the scanner.
\<close>

record istream =
  eofbit :: bool
  failbit :: bool
  badbit :: bool
  contents :: string

definition good :: "istream \<Rightarrow> bool" where
  "good s = (\<not> eofbit s \<and> \<not> failbit s \<and> \<not> badbit s)"

definition eof :: "istream \<Rightarrow> bool" where
  "eof s = eofbit s"

text \<open>
  The \<^verbatim>\<open>SqlParser\<close> object: the response buffer, the scanner and parser handles (the stream
  each is bound to, \<open>None\<close> for \<^verbatim>\<open>nullptr\<close>) and the log of the calls made on \<^verbatim>\<open>m_engine\<close>.
\<close>

record ('r, 'd, 'ty) SqlParser =
  m_parser_response :: "('r, 'd) ParserResponse"
  m_sc :: "istream option"
  m_parser :: "istream option"
  engine_log :: "('r, 'ty) engine_call list"

text \<open>
  What \<^verbatim>\<open>parse_helper\<close> needs from outside: whether the two \<^verbatim>\<open>new\<close> expressions succeed, and
  the run of the generated \<^verbatim>\<open>yy::parser::parse\<close>, which reads the stream, calls back into the
  object and returns its status, or lets an exception of a callback through.
\<close>

record ('r, 'd, 'ty) parser_env =
  scanner_alloc_ok :: bool
  parser_alloc_ok :: bool
  yyparse :: "istream \<Rightarrow> ('r, 'd, 'ty) SqlParser \<Rightarrow> exn + (int \<times> ('r, 'd, 'ty) SqlParser)"

section \<open>Session facade: parse\<close>

text \<open>\<^verbatim>\<open>SqlParser::parse_helper\<close>, lines 34-55.\<close>

definition parse_helper ::
  "('r, 'd, 'ty) parser_env \<Rightarrow> istream \<Rightarrow> ('r, 'd, 'ty) SqlParser \<Rightarrow> exn + ('r, 'd, 'ty) SqlParser"
where
  "parse_helper env stream st =
     (if \<not> scanner_alloc_ok env then Inl BadAlloc
      else let st1 = st\<lparr>m_sc := Some stream\<rparr> in
        if \<not> parser_alloc_ok env then Inl BadAlloc
        else let st2 = st1\<lparr>m_parser := Some stream\<rparr> in
          (case yyparse env stream st2 of
             Inl e \<Rightarrow> Inl e
           | Inr (rc, st3) \<Rightarrow>
               if rc \<noteq> 0 then Inl (RuntimeError ''Parsing failed'') else Inr st3))"

text \<open>
  \<^verbatim>\<open>SqlParser::parse(std::istream &)\<close>, lines 26-32. The reference returned is
  \<open>m_parser_response\<close> of the resulting object.
\<close>

definition parse ::
  "('r, 'd, 'ty) parser_env \<Rightarrow> istream \<Rightarrow> ('r, 'd, 'ty) SqlParser \<Rightarrow> exn + ('r, 'd, 'ty) SqlParser"
where
  "parse env stream st =
     (if \<not> good stream \<and> eof stream then Inr st
      else parse_helper env stream st)"

section \<open>Statement callbacks\<close>

text \<open>\<^verbatim>\<open>SqlParser::create_table\<close>, lines 65-86: the loop over the columns, then the call.\<close>

fun create_table_loop ::
  "'ty column_t list \<Rightarrow> string \<times> 'ty list \<times> string list \<Rightarrow> string \<times> 'ty list \<times> string list"
where
  "create_table_loop [] acc = acc"
| "create_table_loop (col # columns) (primary_key, col_types, col_names) =
     create_table_loop columns
       (if is_pk col then col_name col else primary_key,
        col_types @ [col_type col],
        col_names @ [col_name col])"

definition create_table ::
  "('r, 'd, 'ty) SqlParser \<Rightarrow> string \<Rightarrow> 'ty column_t list \<Rightarrow> ('r, 'd, 'ty) SqlParser"
where
  "create_table st tablename columns =
     (case create_table_loop columns ([], [], []) of
        (primary_key, col_types, col_names) \<Rightarrow>
          st\<lparr>engine_log :=
               engine_log st @ [CreateTable tablename primary_key col_types col_names]\<rparr>)"

text \<open>
  \<^verbatim>\<open>SqlParser::insert\<close>, lines 260-264, named \<open>insert_stmt\<close> here (\<open>insert\<close> is the
  operation on sets). The argument of \<^verbatim>\<open>add\<close> is a vector built from the reverse
  iterators of \<open>values\<close>: element \<open>i\<close> of it is read at \<^verbatim>\<open>rbegin() + i\<close>.
\<close>

definition vector_of_reverse_range :: "'a list \<Rightarrow> 'a list" where
  "vector_of_reverse_range values =
     map (\<lambda>i. values ! (length values - Suc i)) [0..<length values]"

definition insert_stmt ::
  "('r, 'd, 'ty) SqlParser \<Rightarrow> string \<Rightarrow> string list \<Rightarrow> ('r, 'd, 'ty) SqlParser"
where
  "insert_stmt st tablename values =
     st\<lparr>engine_log := engine_log st @ [Add tablename (vector_of_reverse_range values)]\<rparr>"

text \<open>
  \<^verbatim>\<open>SqlParser::remove\<close>, lines 266-273, named \<open>remove_stmt\<close> for the same reason.
  \<^verbatim>\<open>front()\<close> of an empty list has no defined result; the model stops there.
\<close>

definition remove_stmt ::
  "('r, 'd, 'ty) SqlParser \<Rightarrow> string \<Rightarrow> condition_t list list \<Rightarrow> exn + ('r, 'd, 'ty) SqlParser"
where
  "remove_stmt st tablename constraint =
     (case constraint of
        [] \<Rightarrow> Inl FrontOfEmpty
      | first_disjunct # _ \<Rightarrow>
          (case first_disjunct of
             [] \<Rightarrow> Inl FrontOfEmpty
           | unique_condition # _ \<Rightarrow>
               Inr (st\<lparr>engine_log := engine_log st @
                      [Remove tablename
                         \<lparr>attr_name = column_name unique_condition,
                          attr_value = val unique_condition\<rparr>]\<rparr>)))"

section \<open>Result merger\<close>

text \<open>
  \<^verbatim>\<open>std::unordered_set<Record, RecordHash>\<close>: a table of buckets, an element living in the
  bucket of its hash. \<^verbatim>\<open>find\<close> looks into that bucket only and compares with
  \<^verbatim>\<open>operator==\<close>; \<^verbatim>\<open>insert\<close> adds an element that \<^verbatim>\<open>find\<close> does not see. The hash function
  is a parameter.
\<close>

type_synonym 'r unordered_set = "nat \<Rightarrow> 'r list"

definition uset_empty :: "'r unordered_set" where
  "uset_empty = (\<lambda>_. [])"

definition uset_find :: "('r \<Rightarrow> nat) \<Rightarrow> 'r unordered_set \<Rightarrow> 'r \<Rightarrow> bool" where
  "uset_find hash u e = (e \<in> set (u (hash e)))"

definition uset_insert :: "('r \<Rightarrow> nat) \<Rightarrow> 'r unordered_set \<Rightarrow> 'r \<Rightarrow> 'r unordered_set" where
  "uset_insert hash u e = (if uset_find hash u e then u else u(hash e := e # u (hash e)))"

definition uset_of_range :: "('r \<Rightarrow> nat) \<Rightarrow> 'r list \<Rightarrow> 'r unordered_set" where
  "uset_of_range hash xs = foldl (uset_insert hash) uset_empty xs"

text \<open>
  \<^verbatim>\<open>SqlParser::merge_records\<close>, lines 226-246. The loop over \<open>vec2\<close> carries \<open>response\<close>
  and \<open>unique_elements\<close>.
\<close>

fun merge_records_loop ::
  "('r \<Rightarrow> nat) \<Rightarrow> 'r list \<Rightarrow> 'r list \<times> 'r unordered_set \<Rightarrow> 'r list \<times> 'r unordered_set"
where
  "merge_records_loop hash [] (response, unique_elements) = (response, unique_elements)"
| "merge_records_loop hash (element # vec2) (response, unique_elements) =
     (if \<not> uset_find hash unique_elements element
      then merge_records_loop hash vec2
             (response @ [element], uset_insert hash unique_elements element)
      else merge_records_loop hash vec2 (response, unique_elements))"

definition merge_records :: "('r \<Rightarrow> nat) \<Rightarrow> 'r list \<Rightarrow> 'r list \<Rightarrow> 'r list" where
  "merge_records hash vec1 vec2 =
     fst (merge_records_loop hash vec2 (vec1, uset_of_range hash vec1))"

text \<open>
  \<^verbatim>\<open>insert\<close> of a map with unique keys: an entry whose key is present already is not
  inserted. The range form inserts the entries of the range one after the other.
\<close>

definition map_insert :: "'d query_time_t \<Rightarrow> string \<times> 'd \<Rightarrow> 'd query_time_t" where
  "map_insert m entry =
     (case map_of m (fst entry) of None \<Rightarrow> m @ [entry] | Some _ \<Rightarrow> m)"

text \<open>
  \<^verbatim>\<open>SqlParser::merge_times\<close>, lines 248-252. The result is the new contents of \<open>times_1\<close>,
  which the source changes in place and returns by reference.
\<close>

definition merge_times :: "'d query_time_t \<Rightarrow> 'd query_time_t \<Rightarrow> 'd query_time_t" where
  "merge_times times_1 times_2 = foldl map_insert times_1 times_2"

section \<open>Query executor\<close>

text \<open>\<^verbatim>\<open>SqlParser::query_to_output\<close>, lines 217-224.\<close>

definition query_to_output ::
  "('r, 'd) DBEngine \<Rightarrow> ('r, 'd, 'ty) SqlParser \<Rightarrow> ('r, 'd) QueryResponse \<Rightarrow> string list
     \<Rightarrow> ('r, 'd, 'ty) SqlParser"
where
  "query_to_output eng st query_response sorted_column_names =
     st\<lparr>m_parser_response := (m_parser_response st)
          \<lparr>records := records query_response,
           query_times := query_times query_response,
           table_names := get_table_names eng,
           column_names := sorted_column_names\<rparr>\<rparr>"

text \<open>
  A default-constructed \<^verbatim>\<open>condition_t\<close>: both strings are empty. Its \<^verbatim>\<open>c\<close> is never read
  (\<^verbatim>\<open>select\<close> leaves the loop when \<^verbatim>\<open>column_name\<close> is empty), the model fixes it.
\<close>

definition empty_condition :: condition_t where
  "empty_condition = \<lparr>column_name = [], cmp = EQUAL, val = []\<rparr>"

text \<open>The comparator \<open>record_comp\<close> obtained for one condition, lines 154-156.\<close>

definition record_comp :: "('r, 'd) DBEngine \<Rightarrow> string \<Rightarrow> condition_t \<Rightarrow> 'r \<Rightarrow> bool" where
  "record_comp eng tablename column_constraint =
     get_comparator eng tablename (cmp column_constraint) (column_name column_constraint)
       (val column_constraint)"

text \<open>
  The loop over the conditions of one AND group, lines 141-164, carrying
  \<open>constraint_key\<close> and \<open>lambdas\<close>.
\<close>

fun and_loop ::
  "('r, 'd) DBEngine \<Rightarrow> string \<Rightarrow> condition_t list \<Rightarrow> condition_t \<times> ('r \<Rightarrow> bool) list
     \<Rightarrow> condition_t \<times> ('r \<Rightarrow> bool) list"
where
  "and_loop eng tablename [] (constraint_key, lambdas) = (constraint_key, lambdas)"
| "and_loop eng tablename (column_constraint # rest) (constraint_key, lambdas) =
     (let indexes = get_indexes_names eng tablename in
      if column_name column_constraint \<notin> set indexes
      then and_loop eng tablename rest
             (constraint_key, lambdas @ [record_comp eng tablename column_constraint])
      else if column_name constraint_key = []
      then and_loop eng tablename rest (column_constraint, lambdas)
      else and_loop eng tablename rest (constraint_key, lambdas))"

text \<open>The closure \<open>joined_lambdas\<close>, lines 168-172.\<close>

definition joined_lambdas :: "('r \<Rightarrow> bool) list \<Rightarrow> 'r \<Rightarrow> bool" where
  "joined_lambdas lambdas = (\<lambda>rec. list_all (\<lambda>single_lambda. single_lambda rec) lambdas)"

text \<open>
  The query driven by the index key, lines 183-207. \<open>key_limits\<close> is the pair
  \<open>begin_key\<close>, \<open>end_key\<close> after the \<^verbatim>\<open>switch\<close>; \<open>index_call\<close> is the call issued on the
  engine and \<open>index_response\<close> the engine's answer to it, which becomes \<open>or_response\<close>.
\<close>

definition key_limits :: "('r, 'd) DBEngine \<Rightarrow> condition_t \<Rightarrow> Attribute \<times> Attribute" where
  "key_limits eng constraint_key =
     (let begin_key = KEY_MIN eng;
          end_key = KEY_MAX eng
      in case cmp constraint_key of
           L \<Rightarrow> (begin_key, \<lparr>attr_name = column_name constraint_key,
                               attr_value = val constraint_key\<rparr>)
         | LE \<Rightarrow> (begin_key, \<lparr>attr_name = column_name constraint_key,
                                attr_value = val constraint_key\<rparr>)
         | G \<Rightarrow> (\<lparr>attr_name = column_name constraint_key,
                   attr_value = val constraint_key\<rparr>, end_key)
         | GE \<Rightarrow> (\<lparr>attr_name = column_name constraint_key,
                    attr_value = val constraint_key\<rparr>, end_key)
         | EQUAL \<Rightarrow> (begin_key, end_key))"

definition index_call ::
  "('r, 'd) DBEngine \<Rightarrow> string \<Rightarrow> string list \<Rightarrow> condition_t \<Rightarrow> ('r \<Rightarrow> bool)
     \<Rightarrow> ('r, 'ty) engine_call"
where
  "index_call eng tablename sorted_column_names constraint_key joined =
     (if cmp constraint_key = EQUAL
      then Search tablename
             \<lparr>attr_name = column_name constraint_key, attr_value = val constraint_key\<rparr>
             (Some joined) sorted_column_names
      else RangeSearch tablename (fst (key_limits eng constraint_key))
             (snd (key_limits eng constraint_key)) (Some joined) sorted_column_names)"

definition index_response ::
  "('r, 'd) DBEngine \<Rightarrow> string \<Rightarrow> string list \<Rightarrow> condition_t \<Rightarrow> ('r \<Rightarrow> bool)
     \<Rightarrow> ('r, 'd) QueryResponse"
where
  "index_response eng tablename sorted_column_names constraint_key joined =
     (if cmp constraint_key = EQUAL
      then search eng tablename
             \<lparr>attr_name = column_name constraint_key, attr_value = val constraint_key\<rparr>
             (Some joined) sorted_column_names
      else range_search eng tablename (fst (key_limits eng constraint_key))
             (snd (key_limits eng constraint_key)) (Some joined) sorted_column_names)"

text \<open>
  The loop over the OR groups, lines 135-213, carrying \<open>query_response\<close> and the log of
  engine calls. The first equation is the end of the list; the \<^verbatim>\<open>break\<close> of line 180 is the
  branch that does not recur.
\<close>

fun or_loop ::
  "('r \<Rightarrow> nat) \<Rightarrow> ('r, 'd) DBEngine \<Rightarrow> string \<Rightarrow> string list \<Rightarrow> condition_t list list
     \<Rightarrow> ('r, 'd) QueryResponse \<times> ('r, 'ty) engine_call list
     \<Rightarrow> ('r, 'd) QueryResponse \<times> ('r, 'ty) engine_call list"
where
  "or_loop hash eng tablename sorted_column_names [] (query_response, log) =
     (query_response, log)"
| "or_loop hash eng tablename sorted_column_names (or_constraint # rest) (query_response, log) =
     (case and_loop eng tablename or_constraint (empty_condition, []) of
        (constraint_key, lambdas) \<Rightarrow>
          if column_name constraint_key = []
          then (load_pred eng tablename sorted_column_names (Some (joined_lambdas lambdas)),
                log @ [LoadPred tablename sorted_column_names (Some (joined_lambdas lambdas))])
          else (let or_response =
                      index_response eng tablename sorted_column_names constraint_key
                        (joined_lambdas lambdas)
                in or_loop hash eng tablename sorted_column_names rest
                     (query_response
                        \<lparr>query_times :=
                           merge_times (query_times query_response) (query_times or_response),
                         records :=
                           merge_records hash (records query_response) (records or_response)\<rparr>,
                      log @ [index_call eng tablename sorted_column_names constraint_key
                               (joined_lambdas lambdas)])))"

text \<open>
  \<^verbatim>\<open>SqlParser::select\<close>, lines 108-215. \<open>hash\<close> is \<^verbatim>\<open>RecordHash\<close>. A default-constructed
  \<^verbatim>\<open>QueryResponse\<close> has no records and no times.
\<close>

definition select ::
  "('r \<Rightarrow> nat) \<Rightarrow> ('r, 'd) DBEngine \<Rightarrow> ('r, 'd, 'ty) SqlParser \<Rightarrow> string \<Rightarrow> string list
     \<Rightarrow> condition_t list list \<Rightarrow> exn + ('r, 'd, 'ty) SqlParser"
where
  "select hash eng st tablename columns constraints =
     (let sorted_column_names = sort_attributes eng tablename columns;
          table_attributes = get_table_attributes eng tablename in
      if list_ex (\<lambda>col. col \<notin> set table_attributes) sorted_column_names
      then Inl (RuntimeError ''Column doesn't exists'')
      else if constraints = []
      then Inr (query_to_output eng
                  (st\<lparr>engine_log := engine_log st @ [Load tablename sorted_column_names]\<rparr>)
                  (load eng tablename sorted_column_names) sorted_column_names)
      else (case or_loop hash eng tablename sorted_column_names constraints
                   (\<lparr>records = [], query_times = []\<rparr>, engine_log st) of
              (query_response, log) \<Rightarrow>
                Inr (query_to_output eng (st\<lparr>engine_log := log\<rparr>) query_response
                       sorted_column_names)))"

text \<open>
  \<^verbatim>\<open>SqlParser::select_between\<close>, lines 279-306. Line 284 calls \<^verbatim>\<open>sort_attributes\<close> and drops
  what it returns; \<open>sorted_column_names\<close> stays the copy of \<open>columns\<close> made in line 283.
\<close>

definition select_between ::
  "('r, 'd) DBEngine \<Rightarrow> ('r, 'd, 'ty) SqlParser \<Rightarrow> string \<Rightarrow> string list
     \<Rightarrow> string \<Rightarrow> string \<Rightarrow> string \<Rightarrow> exn + ('r, 'd, 'ty) SqlParser"
where
  "select_between eng st tablename columns ident val1 val2 =
     (let sorted_column_names = columns;
          discarded = sort_attributes eng tablename sorted_column_names;
          table_attributes = get_table_attributes eng tablename in
      if list_ex (\<lambda>col. col \<notin> set table_attributes) sorted_column_names
      then Inl (RuntimeError ''Column doesn't exists'')
      else (let begin_key = \<lparr>attr_name = ident, attr_value = val1\<rparr>;
                end_key = \<lparr>attr_name = ident, attr_value = val2\<rparr>
            in Inr (query_to_output eng
                      (st\<lparr>engine_log := engine_log st @
                           [RangeSearch tablename begin_key end_key None sorted_column_names]\<rparr>)
                      (range_search eng tablename begin_key end_key None sorted_column_names)
                      sorted_column_names)))"

section \<open>Notions of the specification\<close>

text \<open>
  The index driver of an AND group as the specification words it: the first condition in
  source order whose column is indexed, if there is one.
\<close>

definition spec_index_driver ::
  "('r, 'd) DBEngine \<Rightarrow> string \<Rightarrow> condition_t list \<Rightarrow> condition_t option"
where
  "spec_index_driver eng tablename conds =
     find (\<lambda>cond. column_name cond \<in> set (get_indexes_names eng tablename)) conds"

text \<open>
  The residual predicate as the specification words it: the conjunction of the comparators
  of all conditions of the group but the driver.
\<close>

definition spec_residual :: "('r, 'd) DBEngine \<Rightarrow> string \<Rightarrow> condition_t list \<Rightarrow> 'r \<Rightarrow> bool" where
  "spec_residual eng tablename conds =
     (case spec_index_driver eng tablename conds of
        None \<Rightarrow> joined_lambdas (map (record_comp eng tablename) conds)
      | Some driver \<Rightarrow> joined_lambdas (map (record_comp eng tablename) (remove1 driver conds)))"

text \<open>
  The residual predicate the executor builds (see \<open>and_loop\<close>): the conjunction of the
  comparators of the conditions whose column has no index.
\<close>

definition code_residual :: "('r, 'd) DBEngine \<Rightarrow> string \<Rightarrow> condition_t list \<Rightarrow> 'r \<Rightarrow> bool" where
  "code_residual eng tablename conds =
     joined_lambdas (map (record_comp eng tablename)
       (filter (\<lambda>cond. column_name cond \<notin> set (get_indexes_names eng tablename)) conds))"

text \<open>
  The engine call the specification prescribes for a driver: a point search for \<open>=\<close>, a
  range search below the value for \<open><\<close> and \<open>\<le>\<close>, above it for \<open>>\<close> and \<open>\<ge>\<close>.
\<close>

definition spec_index_call ::
  "('r, 'd) DBEngine \<Rightarrow> string \<Rightarrow> string list \<Rightarrow> condition_t \<Rightarrow> ('r \<Rightarrow> bool)
     \<Rightarrow> ('r, 'ty) engine_call"
where
  "spec_index_call eng tablename cols driver residual =
     (case cmp driver of
        EQUAL \<Rightarrow>
          Search tablename \<lparr>attr_name = column_name driver, attr_value = val driver\<rparr>
            (Some residual) cols
      | L \<Rightarrow>
          RangeSearch tablename (KEY_MIN eng)
            \<lparr>attr_name = column_name driver, attr_value = val driver\<rparr> (Some residual) cols
      | LE \<Rightarrow>
          RangeSearch tablename (KEY_MIN eng)
            \<lparr>attr_name = column_name driver, attr_value = val driver\<rparr> (Some residual) cols
      | G \<Rightarrow>
          RangeSearch tablename \<lparr>attr_name = column_name driver, attr_value = val driver\<rparr>
            (KEY_MAX eng) (Some residual) cols
      | GE \<Rightarrow>
          RangeSearch tablename \<lparr>attr_name = column_name driver, attr_value = val driver\<rparr>
            (KEY_MAX eng) (Some residual) cols)"


section \<open>A small engine for concrete runs\<close>

text \<open>
  Modelled from the spec: the storage engine (\<^verbatim>\<open>DB_ENGINE::DBEngine\<close>) is not among the
  source files. This stand-in follows the interface table of the specification for one
  table \<open>t\<close> with the schema \<open>id, age, name\<close> and three rows. Records are the lists of
  their field texts (a query returns whole rows), durations are numbers.
  \<^verbatim>\<open>sort_attributes\<close> returns the requested columns in schema order; the list of indexed
  columns is a parameter.
\<close>

definition mock_schema :: "string list" where
  "mock_schema = [''id'', ''age'', ''name'']"

definition mock_rows :: "string list list" where
  "mock_rows = [[''5'', ''42'', ''bob''], [''7'', ''25'', ''eve''], [''5'', ''25'', ''dan'']]"

definition digits_value :: "string \<Rightarrow> nat" where
  "digits_value s = foldl (\<lambda>n ch. 10 * n + (of_char ch - 48)) 0 s"

definition compare_text :: "Comp \<Rightarrow> string \<Rightarrow> string \<Rightarrow> bool" where
  "compare_text op a b =
     (case op of
        EQUAL \<Rightarrow> a = b
      | L \<Rightarrow> digits_value a < digits_value b
      | LE \<Rightarrow> digits_value a \<le> digits_value b
      | G \<Rightarrow> digits_value b < digits_value a
      | GE \<Rightarrow> digits_value b \<le> digits_value a)"

definition mock_comparator :: "Comp \<Rightarrow> string \<Rightarrow> string \<Rightarrow> string list \<Rightarrow> bool" where
  "mock_comparator op col v row =
     (case map_of (zip mock_schema row) col of
        None \<Rightarrow> False
      | Some field \<Rightarrow> compare_text op field v)"

definition holds :: "'r predicate \<Rightarrow> 'r \<Rightarrow> bool" where
  "holds p row = (case p of None \<Rightarrow> True | Some f \<Rightarrow> f row)"

definition mock_min :: Attribute where
  "mock_min = \<lparr>attr_name = ''KEY_MIN'', attr_value = []\<rparr>"

definition mock_max :: Attribute where
  "mock_max = \<lparr>attr_name = ''KEY_MAX'', attr_value = []\<rparr>"

definition mock_in_range :: "Attribute \<Rightarrow> Attribute \<Rightarrow> string list \<Rightarrow> bool" where
  "mock_in_range lo hi row =
     ((if lo = mock_min then True
       else mock_comparator GE (attr_name lo) (attr_value lo) row) \<and>
      (if hi = mock_max then True
       else mock_comparator LE (attr_name hi) (attr_value hi) row))"

definition mock_engine :: "string list \<Rightarrow> (string list, nat) DBEngine" where
  "mock_engine indexed =
     \<lparr>get_table_names = [''t''],
      get_table_attributes = (\<lambda>t. mock_schema),
      sort_attributes = (\<lambda>t cols. filter (\<lambda>a. a \<in> set cols) mock_schema),
      get_indexes_names = (\<lambda>t. indexed),
      get_comparator = (\<lambda>t. mock_comparator),
      load = (\<lambda>t cols. \<lparr>records = mock_rows, query_times = [(''load'', 3)]\<rparr>),
      load_pred = (\<lambda>t cols p.
        \<lparr>records = filter (holds p) mock_rows, query_times = [(''load'', 3)]\<rparr>),
      search = (\<lambda>t key p cols.
        \<lparr>records =
           filter (\<lambda>row. mock_comparator EQUAL (attr_name key) (attr_value key) row \<and> holds p row)
             mock_rows,
         query_times = [(''search'', 1)]\<rparr>),
      range_search = (\<lambda>t lo hi p cols.
        \<lparr>records = filter (\<lambda>row. mock_in_range lo hi row \<and> holds p row) mock_rows,
         query_times = [(''range_search'', 2)]\<rparr>),
      KEY_MIN = mock_min,
      KEY_MAX = mock_max\<rparr>"

text \<open>A hash for these records, and a fresh \<^verbatim>\<open>SqlParser\<close> (part_000, lines 15-21 and 80-89).\<close>

definition mock_hash :: "string list \<Rightarrow> nat" where
  "mock_hash row = length (concat row)"

definition fresh_response :: "('r, 'd) ParserResponse" where
  "fresh_response =
     \<lparr>records = [], query_times = [], column_names = [], table_names = [],
      error = [], code = 200\<rparr>"

definition fresh_parser :: "('r, 'd, 'ty) SqlParser" where
  "fresh_parser =
     \<lparr>m_parser_response = fresh_response, m_sc = None, m_parser = None, engine_log = []\<rparr>"

text \<open>
  Modelled from the spec: the generated scanner and parser are not among the source files.
  This stand-in returns the status \<open>rc\<close> without calling back.
\<close>

definition mock_env :: "int \<Rightarrow> ('r, 'd, 'ty) parser_env" where
  "mock_env rc =
     \<lparr>scanner_alloc_ok = True,
      parser_alloc_ok = True,
      yyparse = (\<lambda>stream st. Inr (rc, st))\<rparr>"

text \<open>A stream whose \<^verbatim>\<open>failbit\<close> is set and whose \<^verbatim>\<open>eofbit\<close> is clear.\<close>

definition failed_stream :: istream where
  "failed_stream = \<lparr>eofbit = False, failbit = True, badbit = False, contents = []\<rparr>"

text \<open>The conditions \<open>id = 5\<close>, \<open>id \<ge> 5\<close>, \<open>id \<ge> 7\<close> and \<open>age < 30\<close>.\<close>

definition id_eq_5 :: condition_t where
  "id_eq_5 = \<lparr>column_name = ''id'', cmp = EQUAL, val = ''5''\<rparr>"

definition id_ge_5 :: condition_t where
  "id_ge_5 = \<lparr>column_name = ''id'', cmp = GE, val = ''5''\<rparr>"

definition id_ge_7 :: condition_t where
  "id_ge_7 = \<lparr>column_name = ''id'', cmp = GE, val = ''7''\<rparr>"

definition age_lt_30 :: condition_t where
  "age_lt_30 = \<lparr>column_name = ''age'', cmp = L, val = ''30''\<rparr>"

section \<open>Invariant of the hash set\<close>

text \<open>
  \<open>uset_inv hash u S\<close>: looking an element up in the bucket of its hash answers
  membership in \<open>S\<close>. It is what \<^verbatim>\<open>find\<close> relies on.
\<close>

definition uset_inv :: "('r \<Rightarrow> nat) \<Rightarrow> 'r unordered_set \<Rightarrow> 'r set \<Rightarrow> bool" where
  "uset_inv hash u S = (\<forall>e. e \<in> set (u (hash e)) \<longleftrightarrow> e \<in> S)"

section \<open>Statement callbacks: what reaches the engine\<close>

lemma vector_of_reverse_range_rev: "vector_of_reverse_range xs = rev xs"
  unfolding vector_of_reverse_range_def
  by (rule nth_equalityI) (simp_all add: rev_nth)

text \<open>
  Claim C7. For every INSERT of the values \<open>v1, \<dots>, vn\<close>, in the order the grammar hands
  them over, the executor makes one call \<^verbatim>\<open>engine.add\<close>, and its argument is the list
  \<open>vn, \<dots>, v1\<close>.
\<close>

theorem insert_forwards_reversed:
  "insert_stmt st tablename values =
     st\<lparr>engine_log := engine_log st @ [Add tablename (rev values)]\<rparr>"
  by (simp add: insert_stmt_def vector_of_reverse_range_rev)

text \<open>
  Claim C9. For a DELETE whose constraint starts with a non-empty disjunct,
  \<^verbatim>\<open>remove\<close> makes exactly one call \<^verbatim>\<open>engine.remove\<close>; its key is the column name and the
  value of the first condition of the first disjunct. The other conditions \<open>conds\<close> of
  that disjunct and the other disjuncts do not occur in the result.
\<close>

theorem remove_uses_first_condition:
  "remove_stmt st tablename ((cond # conds) # disjuncts) =
     Inr (st\<lparr>engine_log := engine_log st @
            [Remove tablename \<lparr>attr_name = column_name cond, attr_value = val cond\<rparr>]\<rparr>)"
  by (simp add: remove_stmt_def)

lemma create_table_loop_eq:
  "create_table_loop columns (pk, tys, nms) =
     (if filter is_pk columns = [] then pk else col_name (last (filter is_pk columns)),
      tys @ map col_type columns, nms @ map col_name columns)"
  by (induction columns arbitrary: pk tys nms) auto

text \<open>
  Claim C10. \<^verbatim>\<open>create_table\<close> makes one call of the engine's \<^verbatim>\<open>create_table\<close>. The
  primary-key name it passes is the empty string when no column is marked \<^verbatim>\<open>is_pk\<close>, and
  the name of the last marked column in source order otherwise (also when several are
  marked); the column types and names are passed complete and in source order.
\<close>

theorem create_table_forwards:
  "create_table st tablename columns =
     st\<lparr>engine_log := engine_log st @
        [CreateTable tablename
           (if filter is_pk columns = [] then [] else col_name (last (filter is_pk columns)))
           (map col_type columns) (map col_name columns)]\<rparr>"
  by (simp add: create_table_def create_table_loop_eq)

section \<open>Result merger\<close>

lemma map_of_map_insert:
  "map_of (map_insert m entry) k =
     (case map_of m k of
        Some v \<Rightarrow> Some v
      | None \<Rightarrow> if k = fst entry then Some (snd entry) else None)"
  by (cases entry) (auto simp: map_insert_def map_add_def split: option.splits)

lemma map_of_foldl_map_insert:
  "map_of (foldl map_insert m es) k =
     (case map_of m k of Some v \<Rightarrow> Some v | None \<Rightarrow> map_of es k)"
proof (induction es arbitrary: m)
  case Nil
  show ?case by (simp split: option.splits)
next
  case (Cons e es)
  show ?case
    by (cases e) (simp add: Cons.IH map_of_map_insert split: option.splits)
qed

lemma distinct_map_insert:
  "distinct (map fst m) \<Longrightarrow> distinct (map fst (map_insert m entry))"
  by (auto simp: map_insert_def map_of_eq_None_iff split: option.splits)

lemma distinct_merge_times:
  "distinct (map fst times_1) \<Longrightarrow> distinct (map fst (merge_times times_1 times_2))"
  unfolding merge_times_def
  by (induction times_2 arbitrary: times_1) (simp_all add: distinct_map_insert)

text \<open>
  Claim C3, as the code has it. After \<^verbatim>\<open>merge_times(T1, T2)\<close> the keys of \<open>T1\<close> are its
  old keys and all keys of \<open>T2\<close>. A key that \<open>T1\<close> had keeps the value \<open>T1\<close> had for it,
  also when \<open>T2\<close> has the key too; a key that only \<open>T2\<close> had gets the value of \<open>T2\<close>.
\<close>

theorem merge_times_keeps_first:
  "dom (map_of (merge_times times_1 times_2)) = dom (map_of times_1) \<union> dom (map_of times_2)
   \<and> (\<forall>k. map_of (merge_times times_1 times_2) k =
        (case map_of times_1 k of Some v \<Rightarrow> Some v | None \<Rightarrow> map_of times_2 k))"
  by (auto simp: merge_times_def map_of_foldl_map_insert dom_def split: option.splits)

text \<open>
  The claim's collision rule fails: both maps have the key \<open>scan\<close>, and the merged map
  does not hold the value of the second map for it.
\<close>

theorem merge_times_collision_counterexample:
  "''scan'' \<in> dom (map_of [(''scan'', 1::nat)]) \<and> ''scan'' \<in> dom (map_of [(''scan'', 2::nat)])
   \<and> map_of (merge_times [(''scan'', 1::nat)] [(''scan'', 2)]) ''scan''
       \<noteq> map_of [(''scan'', 2)] ''scan''"
  by (simp add: merge_times_def map_insert_def)

lemma uset_inv_empty: "uset_inv hash uset_empty {}"
  by (simp add: uset_inv_def uset_empty_def)

lemma uset_inv_find: "uset_inv hash u S \<Longrightarrow> uset_find hash u e \<longleftrightarrow> e \<in> S"
  by (simp add: uset_inv_def uset_find_def)

lemma uset_inv_insert:
  assumes "uset_inv hash u S"
  shows "uset_inv hash (uset_insert hash u e) (Set.insert e S)"
proof (cases "e \<in> S")
  case True
  with assms have "uset_find hash u e" by (simp add: uset_inv_find)
  with True assms show ?thesis by (simp add: uset_insert_def insert_absorb)
next
  case False
  with assms have nf: "\<not> uset_find hash u e" by (simp add: uset_inv_find)
  have "x \<in> set ((u(hash e := e # u (hash e))) (hash x)) \<longleftrightarrow> x \<in> Set.insert e S" for x
  proof (cases "hash x = hash e")
    case True
    have "x \<in> set (u (hash x)) \<longleftrightarrow> x \<in> S"
      using assms by (simp add: uset_inv_def)
    with True show ?thesis by auto
  next
    case False
    then have "x \<noteq> e" by auto
    moreover have "x \<in> set (u (hash x)) \<longleftrightarrow> x \<in> S"
      using assms by (simp add: uset_inv_def)
    ultimately show ?thesis using False by simp
  qed
  with nf show ?thesis by (simp add: uset_inv_def uset_insert_def)
qed

lemma uset_inv_foldl:
  "uset_inv hash u S \<Longrightarrow> uset_inv hash (foldl (uset_insert hash) u xs) (S \<union> set xs)"
proof (induction xs arbitrary: u S)
  case Nil
  then show ?case by simp
next
  case (Cons x xs)
  from Cons.IH [OF uset_inv_insert [OF Cons.prems, of x]]
  show ?case by simp
qed

lemma uset_inv_of_range: "uset_inv hash (uset_of_range hash xs) (set xs)"
  using uset_inv_foldl [OF uset_inv_empty, of hash xs] by (simp add: uset_of_range_def)

text \<open>
  Keeping the first occurrence of every element of a list is \<open>rev \<circ> remdups \<circ> rev\<close>
  (\<^const>\<open>remdups\<close> itself keeps the last one).
\<close>

lemma remdups_snoc:
  "remdups (ys @ [x]) = filter (\<lambda>y. y \<noteq> x) (remdups ys) @ [x]"
  by (induction ys) auto

lemma first_occurrences_Cons:
  "rev (remdups (rev (x # xs))) = x # rev (remdups (rev (filter (\<lambda>y. y \<noteq> x) xs)))"
  by (simp add: remdups_snoc rev_filter remdups_filter)

lemma merge_records_loop_eq:
  "uset_inv hash u S \<Longrightarrow>
   fst (merge_records_loop hash vec2 (response, u)) =
     response @ rev (remdups (rev (filter (\<lambda>b. b \<notin> S) vec2)))"
proof (induction vec2 arbitrary: response u S)
  case Nil
  show ?case by simp
next
  case (Cons e vec2)
  show ?case
  proof (cases "e \<in> S")
    case True
    with Cons.prems have "uset_find hash u e" by (simp add: uset_inv_find)
    with True Cons.IH [OF Cons.prems] show ?thesis by simp
  next
    case False
    with Cons.prems have nf: "\<not> uset_find hash u e" by (simp add: uset_inv_find)
    have flt: "filter (\<lambda>y. y \<noteq> e) (filter (\<lambda>b. b \<notin> S) vec2) =
                 filter (\<lambda>b. b \<notin> Set.insert e S) vec2"
      by (induction vec2) auto
    have "fst (merge_records_loop hash (e # vec2) (response, u)) =
            fst (merge_records_loop hash vec2 (response @ [e], uset_insert hash u e))"
      using nf by simp
    also have "\<dots> =
        (response @ [e]) @ rev (remdups (rev (filter (\<lambda>b. b \<notin> Set.insert e S) vec2)))"
      by (rule Cons.IH [OF uset_inv_insert [OF Cons.prems]])
    also have "\<dots> = response @ rev (remdups (rev (e # filter (\<lambda>b. b \<notin> S) vec2)))"
      unfolding first_occurrences_Cons flt by simp
    also have "e # filter (\<lambda>b. b \<notin> S) vec2 = filter (\<lambda>b. b \<notin> S) (e # vec2)"
      using False by simp
    finally show ?thesis .
  qed
qed

text \<open>
  Claim C6, as the code has it. For every hash function, \<^verbatim>\<open>merge_records(A, B)\<close> is \<open>A\<close>,
  unchanged and in its order, followed by the first occurrence of every element of \<open>B\<close>
  that equals no element of \<open>A\<close>, in the order of \<open>B\<close>: an element of \<open>B\<close> that repeats an
  earlier element of \<open>B\<close> is dropped as well.
\<close>

theorem merge_records_union:
  "merge_records hash vec1 vec2 =
     vec1 @ rev (remdups (rev (filter (\<lambda>b. b \<notin> set vec1) vec2)))"
  unfolding merge_records_def by (rule merge_records_loop_eq [OF uset_inv_of_range])

text \<open>
  The claim's result, all of \<open>A\<close> followed by exactly the elements of \<open>B\<close> that equal no
  element of \<open>A\<close>, is not what the code returns when \<open>B\<close> repeats a new record: for an
  empty \<open>A\<close> and \<open>B = [1, 1]\<close> the code returns one copy.
\<close>

theorem merge_records_counterexample:
  "merge_records id [] [1, 1 :: nat] = [1]
   \<and> merge_records id [] [1, 1 :: nat] \<noteq> [] @ filter (Not \<circ> List.member []) [1, 1]"
  by (simp add: merge_records_def uset_of_range_def uset_empty_def uset_find_def
      uset_insert_def)

section \<open>Session facade: the guard of parse\<close>

lemma parse_at_eof: "eofbit stream \<Longrightarrow> parse env stream st = Inr st"
  by (simp add: parse_def good_def eof_def)

lemma parse_not_at_eof: "\<not> eofbit stream \<Longrightarrow> parse env stream st = parse_helper env stream st"
  by (simp add: parse_def eof_def)

text \<open>
  Claim C5, as the code has it. The guard of line 27 is taken exactly when the stream is
  at end of file: then \<^verbatim>\<open>parse\<close> returns with the object, and so the response, unchanged,
  and neither scanner nor parser nor engine is touched. In every other state of the
  stream, a failed one included, \<^verbatim>\<open>parse\<close> binds a fresh scanner and a fresh parser to the
  stream and runs the parser; it returns when the parser accepts and throws otherwise.
\<close>

theorem parse_returns_early_at_eof_only:
  "parse env stream st =
     (if eofbit stream then Inr st
      else if scanner_alloc_ok env \<and> parser_alloc_ok env
      then (case yyparse env stream (st\<lparr>m_sc := Some stream, m_parser := Some stream\<rparr>) of
              Inl e \<Rightarrow> Inl e
            | Inr (rc, st') \<Rightarrow>
                if rc = 0 then Inr st' else Inl (RuntimeError ''Parsing failed''))
      else Inl BadAlloc)"
  by (simp add: parse_def parse_helper_def good_def eof_def split: sum.splits prod.splits)

text \<open>
  The claim's guard fails on a stream in a failed state that is not at end of file: the
  stream is not good, and \<^verbatim>\<open>parse\<close> does not return the object unchanged. With a parser
  that rejects it throws; with one that accepts, the scanner and parser handles have been
  bound to the stream.
\<close>

theorem parse_failed_stream_counterexample:
  "\<not> good failed_stream
   \<and> parse (mock_env 1) failed_stream (fresh_parser :: (string list, nat, unit) SqlParser) =
       Inl (RuntimeError ''Parsing failed'')
   \<and> parse (mock_env 0) failed_stream (fresh_parser :: (string list, nat, unit) SqlParser) =
       Inr (fresh_parser\<lparr>m_sc := Some failed_stream, m_parser := Some failed_stream\<rparr>)
   \<and> parse (mock_env 0) failed_stream (fresh_parser :: (string list, nat, unit) SqlParser) \<noteq>
       Inr fresh_parser"
  by (simp add: parse_def parse_helper_def good_def eof_def failed_stream_def mock_env_def
      fresh_parser_def)

section \<open>Query executor: the plan of one AND group\<close>

lemma empty_condition_name: "column_name empty_condition = []"
  by (simp add: empty_condition_def)

lemma and_loop_lambdas:
  "snd (and_loop eng t conds (key, lambdas)) =
     lambdas @ map (record_comp eng t)
       (filter (\<lambda>cond. column_name cond \<notin> set (get_indexes_names eng t)) conds)"
  by (induction conds arbitrary: key lambdas) (simp_all add: Let_def)

lemma and_loop_key_kept:
  "column_name key \<noteq> [] \<Longrightarrow> fst (and_loop eng t conds (key, lambdas)) = key"
  by (induction conds arbitrary: lambdas) (simp_all add: Let_def)

lemma and_loop_key_first:
  "column_name key = [] \<Longrightarrow> spec_index_driver eng t conds = Some driver \<Longrightarrow>
   column_name driver \<noteq> [] \<Longrightarrow> fst (and_loop eng t conds (key, lambdas)) = driver"
proof (induction conds arbitrary: lambdas)
  case Nil
  then show ?case by (simp add: spec_index_driver_def)
next
  case (Cons cond conds)
  show ?case
  proof (cases "column_name cond \<in> set (get_indexes_names eng t)")
    case True
    with Cons.prems show ?thesis
      by (simp add: spec_index_driver_def and_loop_key_kept)
  next
    case False
    with Cons.prems Cons.IH show ?thesis
      by (simp add: spec_index_driver_def)
  qed
qed

text \<open>
  The first half of claim C2 holds: the key the loop ends with is the first condition in
  source order whose column is indexed. The lambdas are the comparators of the conditions
  on columns without index, and of those only.
\<close>

lemma and_loop_driver:
  assumes "spec_index_driver eng t conds = Some driver" and "column_name driver \<noteq> []"
  shows "and_loop eng t conds (empty_condition, []) =
           (driver, map (record_comp eng t)
              (filter (\<lambda>cond. column_name cond \<notin> set (get_indexes_names eng t)) conds))"
  using and_loop_key_first [OF empty_condition_name assms, of "[]"]
    and_loop_lambdas [of eng t conds empty_condition "[]"]
  by (simp add: prod_eq_iff)



lemma index_call_spec:
  "index_call eng t cols key joined = spec_index_call eng t cols key joined"
  by (cases "cmp key") (simp_all add: index_call_def key_limits_def spec_index_call_def)


section \<open>Query executor: the loop over the disjuncts\<close>

lemma or_loop_indexed:
  assumes "spec_index_driver eng t conds = Some driver" and "column_name driver \<noteq> []"
  shows "or_loop hash eng t cols (conds # rest) (query_response, log) =
           or_loop hash eng t cols rest
             (query_response
                \<lparr>query_times :=
                   merge_times (query_times query_response)
                     (query_times (index_response eng t cols driver (code_residual eng t conds))),
                 records :=
                   merge_records hash (records query_response)
                     (records (index_response eng t cols driver (code_residual eng t conds)))\<rparr>,
              log @ [spec_index_call eng t cols driver (code_residual eng t conds)])"
  using assms(2)
  by (simp add: and_loop_driver [OF assms] code_residual_def index_call_spec Let_def)


lemma or_loop_indexed_prefix:
  assumes "\<forall>conds \<in> set pre.
             \<exists>driver. spec_index_driver eng t conds = Some driver \<and> column_name driver \<noteq> []"
  shows "\<exists>query_response'.
           or_loop hash eng t cols (pre @ rest) (query_response, log) =
             or_loop hash eng t cols rest
               (query_response',
                log @ map (\<lambda>conds. spec_index_call eng t cols
                             (the (spec_index_driver eng t conds)) (code_residual eng t conds)) pre)"
  using assms
proof (induction pre arbitrary: query_response log)
  case Nil
  show ?case by (simp del: or_loop.simps) blast
next
  case (Cons conds pre)
  then obtain driver where
    drv: "spec_index_driver eng t conds = Some driver" and name: "column_name driver \<noteq> []"
    by auto
  from Cons.prems have
    "\<forall>conds \<in> set pre.
       \<exists>driver. spec_index_driver eng t conds = Some driver \<and> column_name driver \<noteq> []"
    by simp
  from Cons.IH [OF this] obtain query_response' where
    "or_loop hash eng t cols (pre @ rest)
       (query_response
          \<lparr>query_times :=
             merge_times (query_times query_response)
               (query_times (index_response eng t cols driver (code_residual eng t conds))),
           records :=
             merge_records hash (records query_response)
               (records (index_response eng t cols driver (code_residual eng t conds)))\<rparr>,
        log @ [spec_index_call eng t cols driver (code_residual eng t conds)]) =
     or_loop hash eng t cols rest
       (query_response',
        (log @ [spec_index_call eng t cols driver (code_residual eng t conds)]) @
          map (\<lambda>conds. spec_index_call eng t cols
                 (the (spec_index_driver eng t conds)) (code_residual eng t conds)) pre)"
    by blast
  then have "or_loop hash eng t cols ((conds # pre) @ rest) (query_response, log) =
     or_loop hash eng t cols rest
       (query_response',
        log @ map (\<lambda>conds. spec_index_call eng t cols
                 (the (spec_index_driver eng t conds)) (code_residual eng t conds)) (conds # pre))"
    by (simp add: or_loop_indexed [OF drv name] drv del: or_loop.simps)
  then show ?case by blast
qed

lemma or_loop_log_extends:
  "\<exists>calls. snd (or_loop hash eng t cols disjuncts (query_response, log)) = log @ calls"
proof (induction disjuncts arbitrary: query_response log)
  case Nil
  show ?case by simp
next
  case (Cons conds disjuncts)
  obtain key lambdas where al: "and_loop eng t conds (empty_condition, []) = (key, lambdas)"
    by (cases "and_loop eng t conds (empty_condition, [])")
  show ?case
  proof (cases "column_name key = []")
    case True
    with al show ?thesis by simp
  next
    case False
    from Cons.IH obtain calls where
      "snd (or_loop hash eng t cols disjuncts
        (query_response
           \<lparr>query_times := merge_times (query_times query_response)
              (query_times (index_response eng t cols key (joined_lambdas lambdas))),
            records := merge_records hash (records query_response)
              (records (index_response eng t cols key (joined_lambdas lambdas)))\<rparr>,
         log @ [index_call eng t cols key (joined_lambdas lambdas)])) =
       (log @ [index_call eng t cols key (joined_lambdas lambdas)]) @ calls"
      by blast
    with False al show ?thesis by (simp add: Let_def)
  qed
qed

section \<open>Query executor: SELECT\<close>

lemma select_or_loop:
  assumes "\<not> list_ex (\<lambda>col. col \<notin> set (get_table_attributes eng t)) (sort_attributes eng t cols)"
    and "constraints \<noteq> []"
  shows "select hash eng st t cols constraints =
           Inr (query_to_output eng
                  (st\<lparr>engine_log :=
                       snd (or_loop hash eng t (sort_attributes eng t cols) constraints
                              (\<lparr>records = [], query_times = []\<rparr>, engine_log st))\<rparr>)
                  (fst (or_loop hash eng t (sort_attributes eng t cols) constraints
                          (\<lparr>records = [], query_times = []\<rparr>, engine_log st)))
                  (sort_attributes eng t cols))"
  using assms by (simp add: select_def Let_def case_prod_beta del: or_loop.simps)

lemma engine_log_query_to_output:
  "engine_log (query_to_output eng st query_response cols) = engine_log st"
  by (simp add: query_to_output_def)


text \<open>
  What \<^verbatim>\<open>select\<close> and \<^verbatim>\<open>select_between\<close> put into \<open>column_names\<close>: the first the list
  \<^verbatim>\<open>sort_attributes\<close> returned, the second the requested list as it came.
\<close>

lemma select_column_names:
  assumes "select hash eng st t cols constraints = Inr st'"
  shows "column_names (m_parser_response st') = sort_attributes eng t cols"
proof -
  obtain query_response log where
    "or_loop hash eng t (sort_attributes eng t cols) constraints
       (\<lparr>records = [], query_times = []\<rparr>, engine_log st) = (query_response, log)"
    by (cases "or_loop hash eng t (sort_attributes eng t cols) constraints
       (\<lparr>records = [], query_times = []\<rparr>, engine_log st)")
  with assms show ?thesis
    by (auto simp: select_def Let_def query_to_output_def split: if_splits)
qed

lemma select_between_column_names:
  "select_between eng st t cols ident val1 val2 = Inr st' \<Longrightarrow>
   column_names (m_parser_response st') = cols"
  by (auto simp: select_between_def Let_def query_to_output_def split: if_splits)

text \<open>Unfolding sets for runs on the small engine.\<close>

lemmas mock_defs = mock_engine_def mock_schema_def mock_rows_def mock_comparator_def
  compare_text_def digits_value_def holds_def mock_in_range_def mock_min_def mock_max_def
  mock_hash_def fresh_parser_def fresh_response_def id_eq_5_def id_ge_5_def id_ge_7_def
  age_lt_30_def

lemmas run_defs = select_def select_between_def query_to_output_def empty_condition_def
  index_call_def index_response_def key_limits_def record_comp_def joined_lambdas_def
  merge_records_def merge_times_def map_insert_def
  uset_of_range_def uset_empty_def uset_find_def uset_insert_def Let_def

text \<open>
  The call issued for a disjunct with a driver. Take a SELECT whose columns exist, and a
  disjunct \<open>conds\<close> of its constraint that the loop reaches: every disjunct \<open>pre\<close> before
  it has an index driver. When \<open>conds\<close> has the index driver \<open>driver\<close>, the call issued
  for it (the one at position \<open>length pre\<close> among the calls of this SELECT) has the shape
  the specification prescribes for the operator of the driver, with the sorted column
  list, and with the predicate the AND loop built, \<open>code_residual\<close>: the comparators of
  the conditions on columns without index. A driver has a non-empty column name: the
  executor takes a key with an empty name for no key.
\<close>

lemma select_index_call:
  assumes cols_ok:
      "\<not> list_ex (\<lambda>col. col \<notin> set (get_table_attributes eng t)) (sort_attributes eng t cols)"
    and pre_ok:
      "\<forall>conds \<in> set pre.
         \<exists>driver. spec_index_driver eng t conds = Some driver \<and> column_name driver \<noteq> []"
    and drv: "spec_index_driver eng t conds = Some driver"
    and name: "column_name driver \<noteq> []"
  shows "\<exists>st'. select hash eng st t cols (pre @ conds # post) = Inr st'
           \<and> length (engine_log st) + length pre < length (engine_log st')
           \<and> engine_log st' ! (length (engine_log st) + length pre) =
               spec_index_call eng t (sort_attributes eng t cols) driver
                 (code_residual eng t conds)"
proof -
  let ?cols = "sort_attributes eng t cols"
  let ?call = "spec_index_call eng t ?cols driver (code_residual eng t conds)
                 :: ('a, 'c) engine_call"
  let ?before = "map (\<lambda>conds. spec_index_call eng t ?cols
                    (the (spec_index_driver eng t conds)) (code_residual eng t conds)) pre
                 :: ('a, 'c) engine_call list"
  let ?start = "(\<lparr>records = [], query_times = []\<rparr>, engine_log st)
                 :: ('a, 'b) QueryResponse \<times> ('a, 'c) engine_call list"
  obtain q1 where
    "or_loop hash eng t ?cols (pre @ conds # post) ?start =
       or_loop hash eng t ?cols (conds # post) (q1, engine_log st @ ?before)"
    using or_loop_indexed_prefix [OF pre_ok] by blast
  then obtain q2 where run:
    "or_loop hash eng t ?cols (pre @ conds # post) ?start =
       or_loop hash eng t ?cols post (q2, (engine_log st @ ?before) @ [?call])"
    by (simp add: or_loop_indexed [OF drv name] del: or_loop.simps)
  obtain calls where
    log: "snd (or_loop hash eng t ?cols (pre @ conds # post) ?start) =
            ((engine_log st @ ?before) @ [?call]) @ calls"
    unfolding run using or_loop_log_extends by blast
  let ?st' = "query_to_output eng
      (st\<lparr>engine_log := snd (or_loop hash eng t ?cols (pre @ conds # post) ?start)\<rparr>)
      (fst (or_loop hash eng t ?cols (pre @ conds # post) ?start)) ?cols"
  have "select hash eng st t cols (pre @ conds # post) = Inr ?st'"
    by (rule select_or_loop [OF cols_ok]) simp
  moreover have "engine_log ?st' = ((engine_log st @ ?before) @ [?call]) @ calls"
    by (simp only: engine_log_query_to_output log) simp
  moreover have "(((engine_log st @ ?before) @ [?call]) @ calls) !
                   (length (engine_log st) + length pre) = ?call"
    by (simp add: nth_append)
  ultimately show ?thesis by (intro exI [of _ ?st']) simp
qed

text \<open>
  An instance on the small engine with an index on \<open>id\<close>:
  \<open>WHERE id = 5 OR (id \<ge> 7 AND age < 30)\<close>. The second call is the range search from
  \<open>{id, 7}\<close> to \<open>KEY_MAX\<close>.
\<close>

lemma select_index_call_example:
  "\<exists>st'. select mock_hash (mock_engine [''id''])
            (fresh_parser :: (string list, nat, unit) SqlParser) ''t'' [''name'', ''id'']
            ([[id_eq_5]] @ [id_ge_7, age_lt_30] # []) = Inr st'
         \<and> 1 < length (engine_log st')
         \<and> engine_log st' ! 1 =
             RangeSearch ''t'' \<lparr>attr_name = ''id'', attr_value = ''7''\<rparr> mock_max
               (Some (code_residual (mock_engine [''id'']) ''t'' [id_ge_7, age_lt_30]))
               [''id'', ''name'']"
proof -
  have cols_ok:
    "\<not> list_ex (\<lambda>col. col \<notin> set (get_table_attributes (mock_engine [''id'']) ''t''))
         (sort_attributes (mock_engine [''id'']) ''t'' [''name'', ''id''])"
    by (simp add: mock_defs)
  have pre_ok:
    "\<forall>conds \<in> set [[id_eq_5]].
       \<exists>driver. spec_index_driver (mock_engine [''id'']) ''t'' conds = Some driver
         \<and> column_name driver \<noteq> []"
    by (simp add: spec_index_driver_def mock_defs)
  have drv: "spec_index_driver (mock_engine [''id'']) ''t'' [id_ge_7, age_lt_30] = Some id_ge_7"
    by (simp add: spec_index_driver_def mock_defs)
  have name: "column_name id_ge_7 \<noteq> []"
    by (simp add: id_ge_7_def)
  from select_index_call [OF cols_ok pre_ok drv name, of mock_hash fresh_parser "[]"]
  show ?thesis
    by (simp add: spec_index_call_def mock_engine_def mock_schema_def id_ge_7_def
        fresh_parser_def)
qed

text \<open>
  \<open>code_residual\<close> is the residual predicate of the specification when the driver is the
  only condition of the disjunct on an indexed column.
\<close>

lemma joined_lambdas_iff: "joined_lambdas lambdas row \<longleftrightarrow> (\<forall>f \<in> set lambdas. f row)"
  by (simp add: joined_lambdas_def list_all_iff)

lemma single_indexed_driver:
  "filter (\<lambda>cond. column_name cond \<in> set (get_indexes_names eng t)) conds = [driver] \<Longrightarrow>
   spec_index_driver eng t conds = Some driver"
  unfolding spec_index_driver_def
  by (induction conds) (auto split: if_splits simp: filter_empty_conv find_None_iff)

lemma single_indexed_rest:
  "filter P conds = [driver] \<Longrightarrow> filter (\<lambda>cond. \<not> P cond) conds = remove1 driver conds"
proof (induction conds)
  case Nil
  then show ?case by simp
next
  case (Cons cond conds)
  have drv: "P driver"
    using Cons.prems by (blast dest: filter_eq_ConsD)
  show ?case
  proof (cases "P cond")
    case True
    with Cons.prems have "cond = driver" and "filter P conds = []" by simp_all
    then show ?thesis using True by (simp add: filter_empty_conv)
  next
    case False
    with drv have "cond \<noteq> driver" by auto
    with False Cons show ?thesis by simp
  qed
qed

lemma single_indexed_residual:
  assumes "filter (\<lambda>cond. column_name cond \<in> set (get_indexes_names eng t)) conds = [driver]"
  shows "code_residual eng t conds = spec_residual eng t conds"
  using single_indexed_rest [OF assms]
  by (simp add: code_residual_def spec_residual_def single_indexed_driver [OF assms])

lemma select_index_call_single_index:
  assumes cols_ok:
      "\<not> list_ex (\<lambda>col. col \<notin> set (get_table_attributes eng t)) (sort_attributes eng t cols)"
    and pre_ok:
      "\<forall>conds \<in> set pre.
         \<exists>driver. spec_index_driver eng t conds = Some driver \<and> column_name driver \<noteq> []"
    and only:
      "filter (\<lambda>cond. column_name cond \<in> set (get_indexes_names eng t)) conds = [driver]"
    and name: "column_name driver \<noteq> []"
  shows "\<exists>st'. select hash eng st t cols (pre @ conds # post) = Inr st'
           \<and> length (engine_log st) + length pre < length (engine_log st')
           \<and> engine_log st' ! (length (engine_log st) + length pre) =
               spec_index_call eng t (sort_attributes eng t cols) driver
                 (spec_residual eng t conds)"
  using select_index_call [OF cols_ok pre_ok single_indexed_driver [OF only] name]
  by (simp add: single_indexed_residual [OF only])

text \<open>
  Claim C8 evaluated on the small engine with indexes on \<open>id\<close> and \<open>age\<close>, for
  \<open>WHERE id \<ge> 5 AND age < 30\<close>. The driver is \<open>id \<ge> 5\<close>, and the call has the bounds the
  claim gives for \<open>\<ge>\<close>, from \<open>{id, 5}\<close> to \<open>KEY_MAX\<close>, and the sorted column list. The
  predicate passed along is not the residual predicate: it is the empty conjunction,
  which accepts the row \<open>5, 42, bob\<close> that the residual \<open>age < 30\<close> rejects, and all three
  rows are in the response.
\<close>

theorem select_index_call_residual_differs:
  "select mock_hash (mock_engine [''id'', ''age''])
     (fresh_parser :: (string list, nat, unit) SqlParser) ''t'' [''name'', ''id'']
     [[id_ge_5, age_lt_30]] =
   Inr (fresh_parser
     \<lparr>m_parser_response :=
        \<lparr>records = mock_rows, query_times = [(''range_search'', 2)],
         column_names = [''id'', ''name''], table_names = [''t''], error = [], code = 200\<rparr>,
      engine_log :=
        [RangeSearch ''t'' \<lparr>attr_name = ''id'', attr_value = ''5''\<rparr> mock_max
           (Some (joined_lambdas [])) [''id'', ''name'']]\<rparr>)
   \<and> spec_index_driver (mock_engine [''id'', ''age'']) ''t'' [id_ge_5, age_lt_30] = Some id_ge_5
   \<and> (spec_index_call (mock_engine [''id'', ''age'']) ''t'' [''id'', ''name''] id_ge_5
        (spec_residual (mock_engine [''id'', ''age'']) ''t'' [id_ge_5, age_lt_30])
        :: (string list, unit) engine_call) =
      RangeSearch ''t'' \<lparr>attr_name = ''id'', attr_value = ''5''\<rparr> mock_max
        (Some (spec_residual (mock_engine [''id'', ''age'']) ''t'' [id_ge_5, age_lt_30]))
        [''id'', ''name'']
   \<and> joined_lambdas [] [''5'', ''42'', ''bob'']
   \<and> \<not> spec_residual (mock_engine [''id'', ''age'']) ''t'' [id_ge_5, age_lt_30]
         [''5'', ''42'', ''bob'']
   \<and> joined_lambdas [] \<noteq>
       spec_residual (mock_engine [''id'', ''age'']) ''t'' [id_ge_5, age_lt_30]"
proof -
  have run: "select mock_hash (mock_engine [''id'', ''age''])
     (fresh_parser :: (string list, nat, unit) SqlParser) ''t'' [''name'', ''id'']
     [[id_ge_5, age_lt_30]] =
   Inr (fresh_parser
     \<lparr>m_parser_response :=
        \<lparr>records = mock_rows, query_times = [(''range_search'', 2)],
         column_names = [''id'', ''name''], table_names = [''t''], error = [], code = 200\<rparr>,
      engine_log :=
        [RangeSearch ''t'' \<lparr>attr_name = ''id'', attr_value = ''5''\<rparr> mock_max
           (Some (joined_lambdas [])) [''id'', ''name'']]\<rparr>)"
    by (simp add: run_defs mock_defs)
  have drv: "spec_index_driver (mock_engine [''id'', ''age'']) ''t'' [id_ge_5, age_lt_30] = Some id_ge_5"
    by (simp add: spec_index_driver_def mock_defs)
  have call: "(spec_index_call (mock_engine [''id'', ''age'']) ''t'' [''id'', ''name''] id_ge_5
        (spec_residual (mock_engine [''id'', ''age'']) ''t'' [id_ge_5, age_lt_30])
        :: (string list, unit) engine_call) =
      RangeSearch ''t'' \<lparr>attr_name = ''id'', attr_value = ''5''\<rparr> mock_max
        (Some (spec_residual (mock_engine [''id'', ''age'']) ''t'' [id_ge_5, age_lt_30]))
        [''id'', ''name'']"
    by (simp add: spec_index_call_def mock_engine_def id_ge_5_def)
  have acc: "joined_lambdas [] [''5'', ''42'', ''bob'']"
    by (simp add: joined_lambdas_def)
  have rej: "\<not> spec_residual (mock_engine [''id'', ''age'']) ''t'' [id_ge_5, age_lt_30]
         [''5'', ''42'', ''bob'']"
    by (simp add: spec_residual_def spec_index_driver_def record_comp_def joined_lambdas_def
        mock_defs)
  from acc rej have "joined_lambdas [] \<noteq>
       spec_residual (mock_engine [''id'', ''age'']) ''t'' [id_ge_5, age_lt_30]"
    by metis
  with run drv call acc rej show ?thesis by blast
qed



text \<open>
  Claim C2 evaluated on the small engine with indexes on \<open>id\<close> and \<open>age\<close>, for
  \<open>WHERE id = 5 AND age < 30\<close>. The driver is \<open>id = 5\<close>, the first indexed condition.
  The second indexed condition reaches neither the key nor the lambdas: the predicate
  passed to \<^verbatim>\<open>search\<close> is the empty conjunction, it accepts the row \<open>5, 42, bob\<close> that the
  residual of the specification rejects, and the row is in the response.
\<close>

theorem select_drops_indexed_condition:
  "select mock_hash (mock_engine [''id'', ''age''])
     (fresh_parser :: (string list, nat, 'ty) SqlParser) ''t'' [''name'', ''id'']
     [[id_eq_5, age_lt_30]] =
   Inr (fresh_parser
     \<lparr>m_parser_response :=
        \<lparr>records = [[''5'', ''42'', ''bob''], [''5'', ''25'', ''dan'']],
         query_times = [(''search'', 1)],
         column_names = [''id'', ''name''], table_names = [''t''], error = [], code = 200\<rparr>,
      engine_log :=
        [Search ''t'' \<lparr>attr_name = ''id'', attr_value = ''5''\<rparr> (Some (joined_lambdas []))
           [''id'', ''name'']]\<rparr>)
   \<and> spec_index_driver (mock_engine [''id'', ''age'']) ''t'' [id_eq_5, age_lt_30] = Some id_eq_5
   \<and> joined_lambdas [] [''5'', ''42'', ''bob'']
   \<and> \<not> spec_residual (mock_engine [''id'', ''age'']) ''t'' [id_eq_5, age_lt_30]
         [''5'', ''42'', ''bob'']"
  apply (intro conjI)
     apply (simp add: run_defs mock_defs)
    apply (simp add: spec_index_driver_def mock_defs)
   apply (simp add: joined_lambdas_def)
  apply (simp add: spec_residual_def spec_index_driver_def record_comp_def joined_lambdas_def
      mock_defs)
  done

text \<open>
  Claim C4 evaluated on the small engine for the requested columns \<open>name, id\<close>.
  \<^verbatim>\<open>select_between\<close> returns them in the requested order, while the schema order is
  \<open>id, name\<close>, which is what \<^verbatim>\<open>sort_attributes\<close> returns and what \<^verbatim>\<open>select\<close> puts into the
  response for the same request.
\<close>

theorem select_between_keeps_request_order:
  "select_between (mock_engine [''id''])
     (fresh_parser :: (string list, nat, 'ty) SqlParser) ''t'' [''name'', ''id'']
     ''id'' ''3'' ''9'' =
   Inr (fresh_parser
     \<lparr>m_parser_response :=
        \<lparr>records = mock_rows, query_times = [(''range_search'', 2)],
         column_names = [''name'', ''id''], table_names = [''t''], error = [], code = 200\<rparr>,
      engine_log :=
        [RangeSearch ''t'' \<lparr>attr_name = ''id'', attr_value = ''3''\<rparr>
           \<lparr>attr_name = ''id'', attr_value = ''9''\<rparr> None [''name'', ''id'']]\<rparr>)
   \<and> sort_attributes (mock_engine [''id'']) ''t'' [''name'', ''id''] = [''id'', ''name'']
   \<and> select mock_hash (mock_engine [''id''])
       (fresh_parser :: (string list, nat, 'ty) SqlParser) ''t'' [''name'', ''id''] [] =
     Inr (fresh_parser
       \<lparr>m_parser_response :=
          \<lparr>records = mock_rows, query_times = [(''load'', 3)],
           column_names = [''id'', ''name''], table_names = [''t''], error = [], code = 200\<rparr>,
        engine_log := [Load ''t'' [''id'', ''name'']]\<rparr>)"
  apply (intro conjI)
    apply (simp add: run_defs mock_defs)
   apply (simp add: mock_defs)
  apply (simp add: run_defs mock_defs)
  done

end
